theory Spec2Isabelle
  imports Complex_Main "HOL-Library.Sublist" "HOL-Library.Multiset" "HOL-Library.Option_ord"
begin

section \<open>EV charger dimension and fact tables\<close>

text \<open>
  A shallow embedding of \<^verbatim>\<open>src/transform_data.py\<close>, \<^verbatim>\<open>src/build_table_files.py\<close> and
  \<^verbatim>\<open>main.py\<close>. A polars data frame is a list of rows; a column that may hold nulls
  has cells of an option type (\<open>None\<close> is the null). The raw frame also carries the list of
  the columns its file has, so that selecting an absent column is a branch of the model.

  What the model leaves out: the cell types of the raw columns are fixed by the row type, so
  a column of a type the builders cannot use is not a frame of the model; columns of the
  file other than the eleven the builders name are not read, and are taken not to carry the
  name of an output column; \<^verbatim>\<open>write_csv\<close> succeeds.
\<close>

subsection \<open>Data model\<close>

text \<open>
  The raw frame read from \<^verbatim>\<open>raw_data/fast_chargers.csv\<close>. The fields are the columns
  the three builders read, under the names of the file's header (with \<open>_\<close> for the
  characters an identifier cannot hold). \<open>'id\<close> is the cell type of \<^verbatim>\<open>ObjId\<close>, a
  linear order: an integer or a string, or an option type when the column holds nulls
  (\<open>None\<close> is then the least value, as polars sorts nulls first). \<open>'f\<close> is the cell type
  of the two float columns, whose values are only copied. A field of a row whose
  column is not listed in \<open>columns\<close> is never read.
\<close>

record ('id, 'f) raw_row =
  ObjId :: 'id
  Operator :: "string option"
  Station_name :: "string option"
  Station_address :: "string option"
  Latitude :: 'f
  Longitude :: 'f
  Number_of_station :: "int option"
  Number_of_plugs :: "int option"
  CHAdeMO :: "int option"
  CCS_SAE :: "int option"
  Tesla_Fast :: "int option"

record ('id, 'f) data_frame =
  columns :: "string list"
  rows :: "('id, 'f) raw_row list"

record 'f station_row =
  station_id :: int
  station_name :: "string option"
  num_of_charging_stations :: "int option"
  lat :: 'f
  long :: 'f

record operator_row =
  operator_name :: "string option"
  operator_id :: int

text \<open>
  A row of the fact table. Its two foreign keys are the columns \<^verbatim>\<open>station_id\<close> and
  \<^verbatim>\<open>operator_id\<close> of the source; they are called \<open>fact_station_id\<close> and
  \<open>fact_operator_id\<close> here because the dimension rows already own the two names.
  Both are nullable: a left join leaves null where no dimension row matches.
\<close>

record 'id fact_row =
  charger_id :: 'id
  fact_station_id :: "int option"
  fact_operator_id :: "int option"
  chademo_plug_count :: "int option"
  ccs_sae_plug_count :: "int option"
  tesla_plug_count :: "int option"
  total_plug_count :: "int option"

text \<open>The exceptions the program can meet.\<close>

datatype exn = FileNotFoundError | SchemaError | ColumnNotFoundError | IndexError

subsection \<open>The polars operations the builders call\<close>

text \<open>\<^verbatim>\<open>pl.arange(lo, hi)\<close>: the integers from \<open>lo\<close> up to \<open>hi - 1\<close>.\<close>

definition arange :: "int \<Rightarrow> int \<Rightarrow> int list" where
  "arange lo hi = map (\<lambda>k. lo + int k) [0..<nat (hi - lo)]"

text \<open>
  \<^verbatim>\<open>select\<close>, \<^verbatim>\<open>rename\<close> and the join keys name columns of the raw frame; polars raises
  \<^verbatim>\<open>ColumnNotFoundError\<close> when one of them is absent.
\<close>

definition require_columns :: "string list \<Rightarrow> ('id, 'f) data_frame \<Rightarrow> exn + unit" where
  "require_columns names data =
     (if set names \<subseteq> set (columns data) then Inr () else Inl ColumnNotFoundError)"

text \<open>\<^verbatim>\<open>fill_null(v)\<close> on one cell.\<close>

definition fill_null :: "'a \<Rightarrow> 'a option \<Rightarrow> 'a option" where
  "fill_null v c = (case c of None \<Rightarrow> Some v | Some x \<Rightarrow> Some x)"

text \<open>
  \<^verbatim>\<open>str.strip_chars()\<close> without an argument removes leading and trailing whitespace, the
  characters of Unicode's \<^verbatim>\<open>White_Space\<close> property. A \<open>string\<close> is a list of bytes, so
  each whitespace character is listed by its UTF-8 encoding: U+0009 to U+000D, U+0020,
  U+0085, U+00A0, U+1680, U+2000 to U+200A, U+2028, U+2029, U+202F, U+205F and U+3000.
\<close>

definition whitespace :: "string list" where
  "whitespace =
     [[CHR 0x09], [CHR 0x0A], [CHR 0x0B], [CHR 0x0C], [CHR 0x0D], [CHR 0x20],
      [CHR 0xC2, CHR 0x85], [CHR 0xC2, CHR 0xA0], [CHR 0xE1, CHR 0x9A, CHR 0x80],
      [CHR 0xE2, CHR 0x80, CHR 0x80], [CHR 0xE2, CHR 0x80, CHR 0x81],
      [CHR 0xE2, CHR 0x80, CHR 0x82], [CHR 0xE2, CHR 0x80, CHR 0x83],
      [CHR 0xE2, CHR 0x80, CHR 0x84], [CHR 0xE2, CHR 0x80, CHR 0x85],
      [CHR 0xE2, CHR 0x80, CHR 0x86], [CHR 0xE2, CHR 0x80, CHR 0x87],
      [CHR 0xE2, CHR 0x80, CHR 0x88], [CHR 0xE2, CHR 0x80, CHR 0x89],
      [CHR 0xE2, CHR 0x80, CHR 0x8A], [CHR 0xE2, CHR 0x80, CHR 0xA8],
      [CHR 0xE2, CHR 0x80, CHR 0xA9], [CHR 0xE2, CHR 0x80, CHR 0xAF],
      [CHR 0xE2, CHR 0x81, CHR 0x9F], [CHR 0xE3, CHR 0x80, CHR 0x80]]"

definition leading_whitespace :: "string \<Rightarrow> bool" where
  "leading_whitespace s = list_ex (\<lambda>w. prefix w s) whitespace"

definition trailing_whitespace :: "string \<Rightarrow> bool" where
  "trailing_whitespace s = list_ex (\<lambda>w. suffix w s) whitespace"

function strip_chars_start :: "string \<Rightarrow> string" where
  "strip_chars_start s =
     (case find (\<lambda>w. prefix w s) whitespace of
        None \<Rightarrow> s
      | Some w \<Rightarrow> strip_chars_start (drop (length w) s))"
  by pat_completeness auto

function strip_chars_end :: "string \<Rightarrow> string" where
  "strip_chars_end s =
     (case find (\<lambda>w. suffix w s) whitespace of
        None \<Rightarrow> s
      | Some w \<Rightarrow> strip_chars_end (take (length s - length w) s))"
  by pat_completeness auto

termination strip_chars_start
proof (relation "measure length")
  fix s w
  assume "find (\<lambda>w. prefix w s) whitespace = Some w"
  then have "w \<in> set whitespace" and "prefix w s"
    by (auto simp: find_Some_iff)
  then have "w \<noteq> []" and "length w \<le> length s"
    by (auto simp: whitespace_def prefix_length_le)
  then show "(drop (length w) s, s) \<in> measure length"
    by (cases s) auto
qed simp

termination strip_chars_end
proof (relation "measure length")
  fix s w
  assume "find (\<lambda>w. suffix w s) whitespace = Some w"
  then have "w \<in> set whitespace" and "suffix w s"
    by (auto simp: find_Some_iff)
  then have "w \<noteq> []" and "length w \<le> length s"
    by (auto simp: whitespace_def suffix_length_le)
  then show "(take (length s - length w) s, s) \<in> measure length"
    by (cases s) auto
qed simp

declare strip_chars_start.simps [simp del]
declare strip_chars_end.simps [simp del]

definition strip_chars :: "string \<Rightarrow> string" where
  "strip_chars s = strip_chars_end (strip_chars_start s)"

text \<open>
  \<^verbatim>\<open>unique(subset=...)\<close> is called with its defaults, \<^verbatim>\<open>keep="any"\<close> and
  \<^verbatim>\<open>maintain_order=False\<close>: of the rows that share a key one is kept, polars does not
  say which, and the order of the kept rows is not the input's. So the implementation of
  \<^verbatim>\<open>unique\<close> is a parameter of the builders that call it, and \<open>unique_any\<close> is what polars
  promises of its result \<open>ys\<close> on the input \<open>xs\<close>: one row of the input for each key of
  the input.
\<close>

definition unique_any :: "('a \<Rightarrow> 'k) \<Rightarrow> 'a list \<Rightarrow> 'a list \<Rightarrow> bool" where
  "unique_any key xs ys \<longleftrightarrow>
     distinct (map key ys) \<and> set ys \<subseteq> set xs \<and> key ` set ys = key ` set xs"

definition unique_spec :: "('a \<Rightarrow> 'k) \<Rightarrow> ('a list \<Rightarrow> 'a list) \<Rightarrow> bool" where
  "unique_spec key unique_impl \<longleftrightarrow> (\<forall>xs. unique_any key xs (unique_impl xs))"

text \<open>
  Two implementations that polars' contract admits: \<open>unique_first\<close> keeps the first row of
  each key in the order of the input (what \<^verbatim>\<open>maintain_order=True\<close> would give), and
  \<open>unique_last\<close> keeps the last row of each key, the keys in the reverse order.
\<close>

primrec unique_seen :: "('a \<Rightarrow> 'k) \<Rightarrow> 'k list \<Rightarrow> 'a list \<Rightarrow> 'a list" where
  "unique_seen key seen [] = []"
| "unique_seen key seen (x # xs) =
     (if key x \<in> set seen then unique_seen key seen xs
      else x # unique_seen key (key x # seen) xs)"

definition unique_first :: "('a \<Rightarrow> 'k) \<Rightarrow> 'a list \<Rightarrow> 'a list" where
  "unique_first key xs = unique_seen key [] xs"

definition unique_last :: "('a \<Rightarrow> 'k) \<Rightarrow> 'a list \<Rightarrow> 'a list" where
  "unique_last key xs = unique_seen key [] (rev xs)"

text \<open>
  A left join on one key column: every left row is kept, once for each right row with the
  same key, and once with no partner when there is none. A null key matches nothing
  (polars' default \<^verbatim>\<open>nulls_equal=False\<close>).
\<close>

definition left_join ::
  "('a \<Rightarrow> 'k option) \<Rightarrow> ('b \<Rightarrow> 'k option) \<Rightarrow> 'a list \<Rightarrow> 'b list \<Rightarrow> ('a \<times> 'b option) list" where
  "left_join left_on right_on left right =
     concat (map (\<lambda>l.
       (case filter (\<lambda>r. left_on l \<noteq> None \<and> left_on l = right_on r) right of
          [] \<Rightarrow> [(l, None)]
        | ms \<Rightarrow> map (\<lambda>m. (l, Some m)) ms)) left)"

subsection \<open>\<^verbatim>\<open>transform_data.py\<close>\<close>

text \<open>
  \<^verbatim>\<open>dim_station\<close>: select five columns, rename them, number the rows from 1 and select
  the five columns of the result (the address is dropped). No row is removed.
\<close>

definition dim_station :: "('id, 'f) data_frame \<Rightarrow> exn + 'f station_row list" where
  "dim_station data =
     (case require_columns [''Station name'', ''Station address'', ''Latitude'',
                            ''Longitude'', ''Number of station''] data of
        Inl e \<Rightarrow> Inl e
      | Inr _ \<Rightarrow>
          Inr (map2 (\<lambda>i r. \<lparr>station_id = i, station_name = Station_name r,
                            num_of_charging_stations = Number_of_station r,
                            lat = Latitude r, long = Longitude r\<rparr>)
                 (arange 1 (int (length (rows data)) + 1)) (rows data)))"

text \<open>
  \<^verbatim>\<open>dim_operator\<close>. \<open>operator_rows\<close> is the part after \<^verbatim>\<open>unique\<close>: append the row
  \<^verbatim>\<open>"Unknown"\<close>, fill the nulls with \<^verbatim>\<open>"None"\<close>, number the rows from 1 and strip the names.
\<close>

definition operator_rows :: "string option list \<Rightarrow> operator_row list" where
  "operator_rows selected_columns =
     (let renamed_columns = selected_columns @ [Some ''Unknown''] in
      map2 (\<lambda>n i. \<lparr>operator_name = map_option strip_chars n, operator_id = i\<rparr>)
        (map (fill_null ''None'') renamed_columns)
        (arange 1 (int (length renamed_columns) + 1)))"

definition dim_operator ::
  "(string option list \<Rightarrow> string option list) \<Rightarrow> ('id, 'f) data_frame \<Rightarrow> exn + operator_row list" where
  "dim_operator unique_impl data =
     (case require_columns [''Operator''] data of
        Inl e \<Rightarrow> Inl e
      | Inr _ \<Rightarrow> Inr (operator_rows (unique_impl (map Operator (rows data)))))"

text \<open>
  \<^verbatim>\<open>fact_ev_charger\<close>. The two left joins give, for each raw row, the dimension rows
  that match it; \<open>selected_fact_rows\<close> is the frame after the rename and the selection of
  the seven columns. The raw frame's columns are the join keys and the five renamed ones.
\<close>

definition selected_fact_rows ::
  "('id, 'f) raw_row list \<Rightarrow> operator_row list \<Rightarrow> 'f station_row list \<Rightarrow> 'id fact_row list" where
  "selected_fact_rows data_rows dim_operator_table dim_station_table =
     (let temp_dataframe =
            left_join (\<lambda>(r, op). Station_name r) station_name
              (left_join Operator operator_name data_rows dim_operator_table)
              dim_station_table
      in map (\<lambda>((r, op), st).
                \<lparr>charger_id = ObjId r,
                 fact_station_id = map_option station_id st,
                 fact_operator_id = map_option operator_id op,
                 chademo_plug_count = CHAdeMO r,
                 ccs_sae_plug_count = CCS_SAE r,
                 tesla_plug_count = Tesla_Fast r,
                 total_plug_count = Number_of_plugs r\<rparr>) temp_dataframe)"

text \<open>
  The value that fills the null operator ids:
  \<^verbatim>\<open>dim_operator_table.filter(pl.col("operator_name") == "Unknown")["operator_id"][0]\<close>,
  the id of the first row named \<^verbatim>\<open>"Unknown"\<close>. Indexing an empty column raises
  \<^verbatim>\<open>IndexError\<close>.
\<close>

definition unknown_operator_id :: "operator_row list \<Rightarrow> exn + int" where
  "unknown_operator_id dim_operator_table =
     (case filter (\<lambda>d. operator_name d = Some ''Unknown'') dim_operator_table of
        [] \<Rightarrow> Inl IndexError
      | d # _ \<Rightarrow> Inr (operator_id d))"

definition fact_ev_charger ::
  "('id::linorder fact_row list \<Rightarrow> 'id fact_row list) \<Rightarrow> ('id, 'f) data_frame \<Rightarrow>
   operator_row list \<Rightarrow> 'f station_row list \<Rightarrow> exn + 'id fact_row list" where
  "fact_ev_charger unique_impl data dim_operator_table dim_station_table =
     (case require_columns [''Operator'', ''Station name'', ''ObjId'', ''Number of plugs'',
                            ''CHAdeMO'', ''CCS/SAE'', ''Tesla(Fast)''] data of
        Inl e \<Rightarrow> Inl e
      | Inr _ \<Rightarrow>
          (case unknown_operator_id dim_operator_table of
             Inl e \<Rightarrow> Inl e
           | Inr unknown \<Rightarrow>
               Inr (sort_key charger_id
                     (unique_impl
                       (map (\<lambda>f. f\<lparr>fact_operator_id := fill_null unknown (fact_operator_id f)\<rparr>)
                          (selected_fact_rows (rows data) dim_operator_table
                             dim_station_table))))))"

subsection \<open>\<^verbatim>\<open>build_table_files.py\<close> and \<^verbatim>\<open>main.py\<close>\<close>

text \<open>
  The output directory is a map from a path to the table written there; \<^verbatim>\<open>write_csv\<close>
  replaces the file. A builder returns the directory it leaves and \<open>Inl\<close> the exception it
  raised, if any.
\<close>

datatype ('id, 'f) table =
    StationTable "'f station_row list"
  | OperatorTable "operator_row list"
  | FactTable "'id fact_row list"

type_synonym ('id, 'f) files = "string \<rightharpoonup> ('id, 'f) table"

definition write_csv :: "string \<Rightarrow> ('id, 'f) table \<Rightarrow> ('id, 'f) files \<Rightarrow> ('id, 'f) files" where
  "write_csv path t fs = fs(path \<mapsto> t)"

definition build_dim_station :: "'f station_row list \<Rightarrow> ('id, 'f) files \<Rightarrow> ('id, 'f) files" where
  "build_dim_station data fs = write_csv ''data_file_output/dim_station.csv'' (StationTable data) fs"

definition build_dim_operator :: "operator_row list \<Rightarrow> ('id, 'f) files \<Rightarrow> ('id, 'f) files" where
  "build_dim_operator data fs =
     write_csv ''data_file_output/dim_operator.csv'' (OperatorTable data) fs"

definition build_fact_ev_charger ::
  "('id::linorder fact_row list \<Rightarrow> 'id fact_row list) \<Rightarrow> ('id, 'f) data_frame \<Rightarrow>
   operator_row list \<Rightarrow> 'f station_row list \<Rightarrow> ('id, 'f) files \<Rightarrow> (exn + unit) \<times> ('id, 'f) files" where
  "build_fact_ev_charger unique_impl data dim_operator_table dim_station_table fs =
     (case fact_ev_charger unique_impl data dim_operator_table dim_station_table of
        Inl e \<Rightarrow> (Inl e, fs)
      | Inr fact_table \<Rightarrow>
          (Inr (), write_csv ''data_file_output/fact_ev_charger.csv'' (FactTable fact_table) fs))"

text \<open>
  \<^verbatim>\<open>build_tables\<close>: both dimensions are computed, both are written, then the fact table
  is computed and written. \<open>unique_operator\<close> and \<open>unique_charger\<close> are the two calls of
  \<^verbatim>\<open>unique\<close>.
\<close>

definition build_tables ::
  "(string option list \<Rightarrow> string option list) \<Rightarrow>
   ('id::linorder fact_row list \<Rightarrow> 'id fact_row list) \<Rightarrow>
   ('id, 'f) data_frame \<Rightarrow> ('id, 'f) files \<Rightarrow> (exn + unit) \<times> ('id, 'f) files" where
  "build_tables unique_operator unique_charger data fs =
     (case dim_station data of
        Inl e \<Rightarrow> (Inl e, fs)
      | Inr dim_station_data \<Rightarrow>
          (case dim_operator unique_operator data of
             Inl e \<Rightarrow> (Inl e, fs)
           | Inr dim_operator_data \<Rightarrow>
               build_fact_ev_charger unique_charger data dim_operator_data dim_station_data
                 (build_dim_operator dim_operator_data
                   (build_dim_station dim_station_data fs))))"

text \<open>
  \<^verbatim>\<open>main\<close>. \<open>read_csv\<close> is what \<^verbatim>\<open>pl.read_csv\<close> gave: the frame, or the exception it raised
  (\<^verbatim>\<open>FileNotFoundError\<close> when the file is absent). The two \<^verbatim>\<open>except\<close> clauses print the
  exception; any other exception leaves \<^verbatim>\<open>main\<close> unhandled.
\<close>

datatype outcome = Returned | Printed exn | Unhandled exn

definition handle_exn :: "exn \<Rightarrow> outcome" where
  "handle_exn e =
     (if e = FileNotFoundError then Printed e
      else if e = SchemaError then Printed e
      else Unhandled e)"

definition main ::
  "(string option list \<Rightarrow> string option list) \<Rightarrow>
   ('id::linorder fact_row list \<Rightarrow> 'id fact_row list) \<Rightarrow>
   exn + ('id, 'f) data_frame \<Rightarrow> ('id, 'f) files \<Rightarrow> outcome \<times> ('id, 'f) files" where
  "main unique_operator unique_charger read_csv fs =
     (case read_csv of
        Inl e \<Rightarrow> (handle_exn e, fs)
      | Inr ev_charger_data \<Rightarrow>
          (case build_tables unique_operator unique_charger ev_charger_data fs of
             (Inl e, fs') \<Rightarrow> (handle_exn e, fs')
           | (Inr _, fs') \<Rightarrow> (Returned, fs')))"

subsection \<open>Example frames\<close>

text \<open>
  The columns the three builders name, and frames used to run the builders: a raw row with
  an \<^verbatim>\<open>ObjId\<close>, an operator and a station name, its other cells fixed.
\<close>

definition required_columns :: "string list" where
  "required_columns =
     [''ObjId'', ''Operator'', ''Station name'', ''Station address'', ''Latitude'',
      ''Longitude'', ''Number of station'', ''Number of plugs'', ''CHAdeMO'', ''CCS/SAE'',
      ''Tesla(Fast)'']"

definition charger :: "int \<Rightarrow> string option \<Rightarrow> string option \<Rightarrow> (int, real) raw_row" where
  "charger i operator station =
     \<lparr>ObjId = i, Operator = operator, Station_name = station,
      Station_address = Some ''1 Main Street'', Latitude = 59.9, Longitude = 10.7,
      Number_of_station = Some 2, Number_of_plugs = Some 4, CHAdeMO = Some 1,
      CCS_SAE = Some 2, Tesla_Fast = Some 1\<rparr>"

definition frame :: "(int, real) raw_row list \<Rightarrow> (int, real) data_frame" where
  "frame rs = \<lparr>columns = required_columns, rows = rs\<rparr>"

text \<open>Two chargers of one station, the second with no operator.\<close>

definition two_chargers :: "(int, real) data_frame" where
  "two_chargers =
     frame [charger 1 (Some ''Acme'') (Some ''Station A''), charger 2 None (Some ''Station A'')]"

text \<open>Two operator names that differ in a trailing space.\<close>

definition acme_twice :: "(int, real) data_frame" where
  "acme_twice =
     frame [charger 1 (Some ''Acme'') (Some ''Station A''),
            charger 2 (Some ''Acme '') (Some ''Station B'')]"

text \<open>An operator named \<^verbatim>\<open>"Unknown"\<close> in the raw data, and a charger with no operator.\<close>

definition unknown_and_null :: "(int, real) data_frame" where
  "unknown_and_null =
     frame [charger 1 (Some ''Unknown'') (Some ''Station A''), charger 2 None (Some ''Station B'')]"

text \<open>An operator whose name is \<^verbatim>\<open>"Unknown"\<close> after a leading space.\<close>

definition padded_unknown :: "(int, real) data_frame" where
  "padded_unknown = frame [charger 1 (Some '' Unknown'') (Some ''Station A'')]"

text \<open>A file with no \<^verbatim>\<open>ObjId\<close> column, and a file with no \<^verbatim>\<open>Station name\<close> column.\<close>

definition no_ObjId :: "(int, real) data_frame" where
  "no_ObjId = two_chargers\<lparr>columns := remove1 ''ObjId'' required_columns\<rparr>"

definition no_Station_name :: "(int, real) data_frame" where
  "no_Station_name = two_chargers\<lparr>columns := remove1 ''Station name'' required_columns\<rparr>"

section \<open>Properties\<close>

subsection \<open>Stripping whitespace\<close>

lemma strip_chars_start_no_leading: "\<not> leading_whitespace (strip_chars_start s)"
proof (induction s rule: strip_chars_start.induct)
  case (1 s)
  show ?case
  proof (cases "find (\<lambda>w. prefix w s) whitespace")
    case None
    then have "\<not> leading_whitespace s"
      by (auto simp: leading_whitespace_def find_None_iff list_ex_iff)
    with None show ?thesis
      by (simp add: strip_chars_start.simps [of s])
  next
    case (Some w)
    with 1 show ?thesis
      by (simp add: strip_chars_start.simps [of s])
  qed
qed

lemma strip_chars_end_no_trailing: "\<not> trailing_whitespace (strip_chars_end s)"
proof (induction s rule: strip_chars_end.induct)
  case (1 s)
  show ?case
  proof (cases "find (\<lambda>w. suffix w s) whitespace")
    case None
    then have "\<not> trailing_whitespace s"
      by (auto simp: trailing_whitespace_def find_None_iff list_ex_iff)
    with None show ?thesis
      by (simp add: strip_chars_end.simps [of s])
  next
    case (Some w)
    with 1 show ?thesis
      by (simp add: strip_chars_end.simps [of s])
  qed
qed

lemma strip_chars_end_prefix: "prefix (strip_chars_end s) s"
proof (induction s rule: strip_chars_end.induct)
  case (1 s)
  show ?case
  proof (cases "find (\<lambda>w. suffix w s) whitespace")
    case None
    then show ?thesis
      by (simp add: strip_chars_end.simps [of s])
  next
    case (Some w)
    with 1 have "prefix (strip_chars_end s) (take (length s - length w) s)"
      by (simp add: strip_chars_end.simps [of s])
    moreover have "prefix (take (length s - length w) s) s"
      by (rule take_is_prefix)
    ultimately show ?thesis
      by (rule prefix_order.trans)
  qed
qed

lemma strip_chars_no_leading: "\<not> leading_whitespace (strip_chars s)"
proof
  assume "leading_whitespace (strip_chars s)"
  then obtain w where w: "w \<in> set whitespace" "prefix w (strip_chars_end (strip_chars_start s))"
    by (auto simp: leading_whitespace_def list_ex_iff strip_chars_def)
  from w(2) strip_chars_end_prefix have "prefix w (strip_chars_start s)"
    by (rule prefix_order.trans)
  with w(1) have "leading_whitespace (strip_chars_start s)"
    by (auto simp: leading_whitespace_def list_ex_iff)
  with strip_chars_start_no_leading show False by blast
qed

lemma strip_chars_no_trailing: "\<not> trailing_whitespace (strip_chars s)"
  by (simp add: strip_chars_def strip_chars_end_no_trailing)

lemma strip_chars_Unknown: "strip_chars ''Unknown'' = ''Unknown''"
  by code_simp

lemma strip_chars_None: "strip_chars ''None'' = ''None''"
  by code_simp

subsection \<open>The contract of \<^verbatim>\<open>unique\<close> and two implementations of it\<close>

lemma unique_seen_set: "set (unique_seen key seen xs) \<subseteq> set xs"
  by (induction xs arbitrary: seen) auto

lemma unique_seen_keys:
  "key ` set (unique_seen key seen xs) = key ` set xs - set seen"
  by (induction xs arbitrary: seen) auto

lemma unique_seen_distinct: "distinct (map key (unique_seen key seen xs))"
  by (induction xs arbitrary: seen) (auto simp: unique_seen_keys)

lemma unique_first_spec: "unique_spec key (unique_first key)"
  by (simp add: unique_spec_def unique_any_def unique_first_def unique_seen_set
      unique_seen_keys unique_seen_distinct)

lemma unique_last_spec: "unique_spec key (unique_last key)"
  using unique_seen_set [of key "[]" "rev xs" for xs]
  by (simp add: unique_spec_def unique_any_def unique_last_def
      unique_seen_keys unique_seen_distinct)

lemma unique_any_id: "unique_any id xs ys \<longleftrightarrow> distinct ys \<and> set ys = set xs"
  by (auto simp: unique_any_def)

subsection \<open>The rows of the operator dimension\<close>

lemma length_arange: "length (arange lo hi) = nat (hi - lo)"
  by (simp add: arange_def)

lemma nth_arange: "k < nat (hi - lo) \<Longrightarrow> arange lo hi ! k = lo + int k"
  by (simp add: arange_def)

lemma length_operator_rows: "length (operator_rows u) = Suc (length u)"
  by (simp add: operator_rows_def Let_def length_arange)

lemma nth_operator_rows:
  assumes "k \<le> length u"
  shows "operator_rows u ! k =
     \<lparr>operator_name = map_option strip_chars (fill_null ''None'' ((u @ [Some ''Unknown'']) ! k)),
      operator_id = int k + 1\<rparr>"
proof -
  let ?r = "u @ [Some ''Unknown'']"
  have k: "k < length ?r" using assms by simp
  then have "map (fill_null ''None'') ?r ! k = fill_null ''None'' (?r ! k)"
    by (rule nth_map)
  moreover have "arange 1 (int (length ?r) + 1) ! k = 1 + int k"
    using k by (intro nth_arange) simp
  moreover have "k < length (zip (map (fill_null ''None'') ?r) (arange 1 (int (length ?r) + 1)))"
    using k by (simp add: length_arange)
  ultimately show ?thesis
    unfolding operator_rows_def Let_def by (simp del: map_append)
qed

lemma operator_rows_eq:
  "operator_rows u =
     map (\<lambda>k. \<lparr>operator_name =
                  map_option strip_chars (fill_null ''None'' ((u @ [Some ''Unknown'']) ! k)),
                operator_id = int k + 1\<rparr>) [0..<Suc (length u)]"
proof (rule nth_equalityI)
  show "length (operator_rows u) = length (map (\<lambda>k. \<lparr>operator_name =
                  map_option strip_chars (fill_null ''None'' ((u @ [Some ''Unknown'']) ! k)),
                operator_id = int k + 1\<rparr>) [0..<Suc (length u)])"
    by (simp add: length_operator_rows)
next
  fix i
  assume "i < length (operator_rows u)"
  then have i: "i \<le> length u"
    by (simp add: length_operator_rows)
  then have "[0..<Suc (length u)] ! i = i"
    by (metis add_0 le_imp_less_Suc nth_upt)
  with i show "operator_rows u ! i = map (\<lambda>k. \<lparr>operator_name =
                  map_option strip_chars (fill_null ''None'' ((u @ [Some ''Unknown'']) ! k)),
                operator_id = int k + 1\<rparr>) [0..<Suc (length u)] ! i"
    by (simp add: nth_operator_rows del: upt_Suc)
qed

lemma operator_rows_names:
  "map operator_name (operator_rows u) =
     map (\<lambda>n. map_option strip_chars (fill_null ''None'' n)) u @ [Some ''Unknown'']"
proof (rule nth_equalityI)
  show "length (map operator_name (operator_rows u)) =
        length (map (\<lambda>n. map_option strip_chars (fill_null ''None'' n)) u @ [Some ''Unknown''])"
    by (simp add: length_operator_rows)
next
  fix i
  assume "i < length (map operator_name (operator_rows u))"
  then have i: "i \<le> length u"
    by (simp add: length_operator_rows)
  show "map operator_name (operator_rows u) ! i =
        (map (\<lambda>n. map_option strip_chars (fill_null ''None'' n)) u @ [Some ''Unknown'']) ! i"
  proof (cases "i < length u")
    case True
    then show ?thesis
      using i by (simp add: length_operator_rows nth_operator_rows nth_append)
  next
    case False
    with i have "i = length u" by simp
    then show ?thesis
      by (simp add: length_operator_rows nth_operator_rows nth_append fill_null_def
          strip_chars_Unknown)
  qed
qed

lemma operator_rows_ids:
  "map operator_id (operator_rows u) = map (\<lambda>k. int k + 1) [0..<Suc (length u)]"
  by (simp add: operator_rows_eq del: upt_Suc)

lemma last_operator_rows:
  "last (operator_rows u) = \<lparr>operator_name = Some ''Unknown'', operator_id = int (length u) + 1\<rparr>"
proof -
  have "operator_rows u \<noteq> []"
    using length_operator_rows [of u] by auto
  then have "last (operator_rows u) = operator_rows u ! length u"
    by (simp add: last_conv_nth length_operator_rows)
  then show ?thesis
    by (simp add: nth_operator_rows fill_null_def strip_chars_Unknown)
qed

lemma operator_rows_id_le:
  "d \<in> set (operator_rows u) \<Longrightarrow> 1 \<le> operator_id d \<and> operator_id d \<le> int (length u) + 1"
  by (auto simp: operator_rows_eq simp del: upt_Suc)

lemma operator_rows_name_not_None: "d \<in> set (operator_rows u) \<Longrightarrow> operator_name d \<noteq> None"
  by (auto simp: operator_rows_eq fill_null_def simp del: upt_Suc split: option.splits)

lemma dim_operator_Inr:
  "''Operator'' \<in> set (columns data) \<Longrightarrow>
   dim_operator unique_impl data = Inr (operator_rows (unique_impl (map Operator (rows data))))"
  by (simp add: dim_operator_def require_columns_def)

lemma unique_spec_idD:
  "unique_spec id unique_impl \<Longrightarrow>
   distinct (unique_impl xs) \<and> set (unique_impl xs) = set xs"
  by (simp add: unique_spec_def unique_any_id)

lemma operator_rows_count_Unknown:
  assumes "distinct u"
  shows "length (filter (\<lambda>d. operator_name d = Some ''Unknown'') (operator_rows u)) =
         Suc (card {v \<in> set u. map_option strip_chars v = Some ''Unknown''})"
proof -
  let ?norm = "\<lambda>n. map_option strip_chars (fill_null ''None'' n)"
  have norm: "?norm v = Some ''Unknown'' \<longleftrightarrow> map_option strip_chars v = Some ''Unknown''" for v
    by (cases v) (simp_all add: fill_null_def strip_chars_None)
  have "length (filter (\<lambda>d. operator_name d = Some ''Unknown'') (operator_rows u)) =
        length (filter (\<lambda>n. n = Some ''Unknown'') (map operator_name (operator_rows u)))"
    by (simp add: filter_map comp_def)
  also have "\<dots> = Suc (length (filter (\<lambda>v. ?norm v = Some ''Unknown'') u))"
    by (simp add: operator_rows_names filter_map comp_def)
  also have "length (filter (\<lambda>v. ?norm v = Some ''Unknown'') u) =
             card {v \<in> set u. map_option strip_chars v = Some ''Unknown''}"
  proof -
    have "filter (\<lambda>v. ?norm v = Some ''Unknown'') u =
          filter (\<lambda>v. map_option strip_chars v = Some ''Unknown'') u"
      by (simp only: norm)
    moreover have "{v. map_option strip_chars v = Some ''Unknown''} \<inter> set u =
          {v \<in> set u. map_option strip_chars v = Some ''Unknown''}"
      by blast
    ultimately show ?thesis
      using distinct_length_filter [OF assms, of "\<lambda>v. map_option strip_chars v = Some ''Unknown''"]
      by (simp only:)
  qed
  finally show ?thesis .
qed

subsection \<open>The rows of the station dimension\<close>

lemma dim_station_rows:
  assumes "set [''Station name'', ''Station address'', ''Latitude'', ''Longitude'',
                ''Number of station''] \<subseteq> set (columns data)"
  shows "\<exists>dim. dim_station data = Inr dim \<and> length dim = length (rows data) \<and>
           map station_name dim = map Station_name (rows data) \<and>
           (\<forall>k < length dim. station_id (dim ! k) = int k + 1)"
proof -
  let ?dim = "map2 (\<lambda>i r. \<lparr>station_id = i, station_name = Station_name r,
                            num_of_charging_stations = Number_of_station r,
                            lat = Latitude r, long = Longitude r\<rparr>)
                 (arange 1 (int (length (rows data)) + 1)) (rows data)"
  have "dim_station data = Inr ?dim"
    using assms by (simp add: dim_station_def require_columns_def)
  moreover have l: "length ?dim = length (rows data)"
    by (simp add: length_arange)
  moreover have "map station_name ?dim = map Station_name (rows data)"
    by (rule nth_equalityI) (simp_all add: length_arange)
  moreover have "\<forall>k < length ?dim. station_id (?dim ! k) = int k + 1"
    by (simp add: length_arange nth_arange)
  ultimately show ?thesis by blast
qed

subsection \<open>The joins and the fact table\<close>

lemma left_join_set:
  "(l, m) \<in> set (left_join left_on right_on left right) \<longleftrightarrow>
     l \<in> set left \<and>
     (case m of
        None \<Rightarrow> \<forall>r \<in> set right. \<not> (left_on l \<noteq> None \<and> left_on l = right_on r)
      | Some r \<Rightarrow> r \<in> set right \<and> left_on l \<noteq> None \<and> left_on l = right_on r)"
proof -
  have one: "(l, m) \<in> set (case filter P right of [] \<Rightarrow> [(l', None)]
                             | ms \<Rightarrow> map (\<lambda>m. (l', Some m)) ms) \<longleftrightarrow>
             l = l' \<and> (case m of None \<Rightarrow> \<forall>r \<in> set right. \<not> P r
                       | Some r \<Rightarrow> r \<in> set right \<and> P r)" for P l'
  proof (cases "filter P right")
    case Nil
    then have "\<forall>r \<in> set right. \<not> P r"
      by (simp add: filter_empty_conv)
    with Nil show ?thesis
      by (auto split: option.splits)
  next
    case (Cons a as)
    then have "\<exists>r \<in> set right. P r"
      by (metis filter_empty_conv list.distinct(1))
    moreover have "set (a # as) = {r \<in> set right. P r}"
      using Cons by (metis set_filter)
    ultimately show ?thesis
      using Cons by (auto split: option.splits)
  qed
  have "(l, m) \<in> set (left_join left_on right_on left right) \<longleftrightarrow>
        (\<exists>l' \<in> set left. (l, m) \<in> set (case filter (\<lambda>r. left_on l' \<noteq> None \<and> left_on l' = right_on r) right of
                                     [] \<Rightarrow> [(l', None)] | ms \<Rightarrow> map (\<lambda>m. (l', Some m)) ms))"
    unfolding left_join_def by simp
  also have "\<dots> \<longleftrightarrow> (\<exists>l' \<in> set left. l = l' \<and>
       (case m of None \<Rightarrow> \<forall>r \<in> set right. \<not> (left_on l' \<noteq> None \<and> left_on l' = right_on r)
        | Some r \<Rightarrow> r \<in> set right \<and> left_on l' \<noteq> None \<and> left_on l' = right_on r))"
    by (simp only: one)
  also have "\<dots> \<longleftrightarrow> l \<in> set left \<and>
     (case m of
        None \<Rightarrow> \<forall>r \<in> set right. \<not> (left_on l \<noteq> None \<and> left_on l = right_on r)
      | Some r \<Rightarrow> r \<in> set right \<and> left_on l \<noteq> None \<and> left_on l = right_on r)"
    by blast
  finally show ?thesis .
qed

lemma left_join_keeps_left:
  "l \<in> set left \<Longrightarrow> \<exists>m. (l, m) \<in> set (left_join left_on right_on left right)"
proof (cases "\<exists>r \<in> set right. left_on l \<noteq> None \<and> left_on l = right_on r")
  case True
  then obtain r where "r \<in> set right" "left_on l \<noteq> None" "left_on l = right_on r"
    by blast
  moreover assume "l \<in> set left"
  ultimately have "(l, Some r) \<in> set (left_join left_on right_on left right)"
    by (simp add: left_join_set)
  then show ?thesis ..
next
  case False
  assume "l \<in> set left"
  with False have "(l, None) \<in> set (left_join left_on right_on left right)"
    by (simp add: left_join_set)
  then show ?thesis ..
qed

lemma selected_fact_rows_origin:
  assumes "f \<in> set (selected_fact_rows data_rows dim_operator_table dim_station_table)"
  shows "\<exists>r \<in> set data_rows. \<exists>op.
           charger_id f = ObjId r \<and> fact_operator_id f = map_option operator_id op \<and>
           (case op of
              None \<Rightarrow> \<forall>d \<in> set dim_operator_table.
                        \<not> (Operator r \<noteq> None \<and> Operator r = operator_name d)
            | Some d \<Rightarrow> d \<in> set dim_operator_table \<and> Operator r \<noteq> None \<and>
                        Operator r = operator_name d)"
proof -
  from assms obtain r op st where
    j: "((r, op), st) \<in> set (left_join (\<lambda>(r, op). Station_name r) station_name
          (left_join Operator operator_name data_rows dim_operator_table) dim_station_table)"
    and f: "charger_id f = ObjId r" "fact_operator_id f = map_option operator_id op"
    by (auto simp: selected_fact_rows_def)
  from j have "(r, op) \<in> set (left_join Operator operator_name data_rows dim_operator_table)"
    by (simp add: left_join_set)
  then have "r \<in> set data_rows"
    and "case op of
           None \<Rightarrow> \<forall>d \<in> set dim_operator_table.
                     \<not> (Operator r \<noteq> None \<and> Operator r = operator_name d)
         | Some d \<Rightarrow> d \<in> set dim_operator_table \<and> Operator r \<noteq> None \<and>
                     Operator r = operator_name d"
    by (simp_all add: left_join_set)
  with f show ?thesis by blast
qed

lemma selected_fact_rows_charger_ids:
  "charger_id ` set (selected_fact_rows data_rows dim_operator_table dim_station_table) =
   ObjId ` set data_rows"
proof
  show "charger_id ` set (selected_fact_rows data_rows dim_operator_table dim_station_table)
        \<subseteq> ObjId ` set data_rows"
    using selected_fact_rows_origin by fastforce
next
  show "ObjId ` set data_rows
        \<subseteq> charger_id ` set (selected_fact_rows data_rows dim_operator_table dim_station_table)"
  proof
    fix c
    assume "c \<in> ObjId ` set data_rows"
    then obtain r where r: "r \<in> set data_rows" "c = ObjId r" by blast
    then obtain op where
      "(r, op) \<in> set (left_join Operator operator_name data_rows dim_operator_table)"
      using left_join_keeps_left by fast
    then obtain st where
      "((r, op), st) \<in> set (left_join (\<lambda>(r, op). Station_name r) station_name
          (left_join Operator operator_name data_rows dim_operator_table) dim_station_table)"
      using left_join_keeps_left by fast
    then have "\<exists>f \<in> set (selected_fact_rows data_rows dim_operator_table dim_station_table).
                 charger_id f = ObjId r"
      unfolding selected_fact_rows_def Let_def by force
    with r(2) show "c \<in> charger_id `
        set (selected_fact_rows data_rows dim_operator_table dim_station_table)"
      by force
  qed
qed

lemma unknown_operator_id_row:
  "unknown_operator_id tbl = Inr x \<Longrightarrow>
   \<exists>d \<in> set tbl. operator_name d = Some ''Unknown'' \<and> operator_id d = x"
proof -
  assume a: "unknown_operator_id tbl = Inr x"
  then obtain d ds where "filter (\<lambda>d. operator_name d = Some ''Unknown'') tbl = d # ds
    \<and> operator_id d = x"
    by (auto simp: unknown_operator_id_def split: list.splits)
  then have "d \<in> set (filter (\<lambda>d. operator_name d = Some ''Unknown'') tbl)" and "operator_id d = x"
    by simp_all
  then show ?thesis by auto
qed

lemma unknown_operator_id_found:
  "\<exists>x. unknown_operator_id (operator_rows u) = Inr x"
proof -
  have "last (operator_rows u) \<in> set (operator_rows u)"
    using length_operator_rows [of u] by (intro last_in_set) auto
  then have "filter (\<lambda>d. operator_name d = Some ''Unknown'') (operator_rows u) \<noteq> []"
    by (auto simp: filter_empty_conv last_operator_rows intro!: bexI [of _ "last (operator_rows u)"])
  then show ?thesis
    by (auto simp: unknown_operator_id_def split: list.splits)
qed

lemma unknown_operator_id_sentinel:
  assumes "\<forall>v \<in> set u. map_option strip_chars v \<noteq> Some ''Unknown''"
  shows "unknown_operator_id (operator_rows u) = Inr (int (length u) + 1)"
proof -
  obtain x where x: "unknown_operator_id (operator_rows u) = Inr x"
    using unknown_operator_id_found by blast
  then obtain d where d: "d \<in> set (operator_rows u)" "operator_name d = Some ''Unknown''"
    "operator_id d = x"
    using unknown_operator_id_row by blast
  from d(1) obtain k where k: "k \<le> length u" "d = operator_rows u ! k"
    by (metis in_set_conv_nth length_operator_rows less_Suc_eq_le)
  have "k = length u"
  proof (rule ccontr)
    assume "k \<noteq> length u"
    with k have lt: "k < length u" by simp
    then have "operator_name d = map_option strip_chars (fill_null ''None'' (u ! k))"
      using k by (simp add: nth_operator_rows nth_append)
    moreover have "map_option strip_chars (u ! k) \<noteq> Some ''Unknown''"
      using assms lt nth_mem by blast
    ultimately show False
      using d(2) by (cases "u ! k") (simp_all add: fill_null_def strip_chars_None)
  qed
  with k d(3) have "x = int (length u) + 1"
    by (simp add: nth_operator_rows)
  with x show ?thesis by simp
qed

lemma fact_ev_charger_Inr:
  assumes "set required_columns \<subseteq> set (columns data)"
    and "unknown_operator_id dim_operator_table = Inr unknown"
  shows "fact_ev_charger unique_impl data dim_operator_table dim_station_table =
         Inr (sort_key charger_id
               (unique_impl
                 (map (\<lambda>f. f\<lparr>fact_operator_id := fill_null unknown (fact_operator_id f)\<rparr>)
                    (selected_fact_rows (rows data) dim_operator_table dim_station_table))))"
  using assms by (simp add: fact_ev_charger_def require_columns_def required_columns_def)

lemma fact_ev_charger_sorted_distinct:
  assumes "unique_spec charger_id unique_impl"
    and "fact_ev_charger unique_impl data dim_operator_table dim_station_table = Inr facts"
  shows "distinct (map charger_id facts) \<and> sorted (map charger_id facts) \<and>
         charger_id ` set facts = ObjId ` set (rows data)"
proof -
  from assms(2) obtain unknown where
    facts: "facts = sort_key charger_id
               (unique_impl
                 (map (\<lambda>f. f\<lparr>fact_operator_id := fill_null unknown (fact_operator_id f)\<rparr>)
                    (selected_fact_rows (rows data) dim_operator_table dim_station_table)))"
    by (auto simp: fact_ev_charger_def split: sum.splits)
  let ?filled = "map (\<lambda>f. f\<lparr>fact_operator_id := fill_null unknown (fact_operator_id f)\<rparr>)
                    (selected_fact_rows (rows data) dim_operator_table dim_station_table)"
  have u: "unique_any charger_id ?filled (unique_impl ?filled)"
    using assms(1) unfolding unique_spec_def by blast
  have "mset (map charger_id facts) = mset (map charger_id (unique_impl ?filled))"
    unfolding facts by simp
  then have "distinct (map charger_id facts) = distinct (map charger_id (unique_impl ?filled))"
    by (rule mset_eq_imp_distinct_iff)
  moreover have "sorted (map charger_id facts)"
    unfolding facts by (rule sorted_sort_key)
  moreover have "charger_id ` set facts = charger_id ` set ?filled"
    using u unfolding facts by (simp add: unique_any_def)
  moreover have "charger_id ` set ?filled =
      charger_id ` set (selected_fact_rows (rows data) dim_operator_table dim_station_table)"
    by (force simp: image_iff)
  ultimately show ?thesis
    using u by (simp add: unique_any_def selected_fact_rows_charger_ids)
qed

lemma fact_ev_charger_origin:
  assumes "unique_spec charger_id unique_impl"
    and "unknown_operator_id dim_operator_table = Inr unknown"
    and "fact_ev_charger unique_impl data dim_operator_table dim_station_table = Inr facts"
    and "f \<in> set facts"
  shows "\<exists>r \<in> set (rows data). ObjId r = charger_id f \<and>
           (if \<exists>d \<in> set dim_operator_table. Operator r \<noteq> None \<and> operator_name d = Operator r
            then \<exists>d \<in> set dim_operator_table.
                   operator_name d = Operator r \<and> fact_operator_id f = Some (operator_id d)
            else fact_operator_id f = Some unknown)"
proof -
  let ?sel = "selected_fact_rows (rows data) dim_operator_table dim_station_table"
  let ?filled = "map (\<lambda>f. f\<lparr>fact_operator_id := fill_null unknown (fact_operator_id f)\<rparr>) ?sel"
  from assms(2,3) have facts: "facts = sort_key charger_id (unique_impl ?filled)"
    by (auto simp: fact_ev_charger_def split: sum.splits)
  have "unique_any charger_id ?filled (unique_impl ?filled)"
    using assms(1) unfolding unique_spec_def by blast
  then have "set (unique_impl ?filled) \<subseteq> set ?filled"
    unfolding unique_any_def by blast
  with assms(4) have "f \<in> set ?filled"
    unfolding facts by auto
  then obtain g where g: "g \<in> set ?sel"
    and f: "f = g\<lparr>fact_operator_id := fill_null unknown (fact_operator_id g)\<rparr>"
    by auto
  from selected_fact_rows_origin [OF g] obtain r op where r: "r \<in> set (rows data)"
    and c: "charger_id g = ObjId r" and o: "fact_operator_id g = map_option operator_id op"
    and m: "case op of
              None \<Rightarrow> \<forall>d \<in> set dim_operator_table.
                        \<not> (Operator r \<noteq> None \<and> Operator r = operator_name d)
            | Some d \<Rightarrow> d \<in> set dim_operator_table \<and> Operator r \<noteq> None \<and>
                        Operator r = operator_name d"
    by blast
  show ?thesis
  proof (cases op)
    case None
    with m o f c r show ?thesis
      by (intro bexI [of _ r]) (auto simp: fill_null_def)
  next
    case (Some d)
    with m o f c r show ?thesis
      by (intro bexI [of _ r]) (auto simp: fill_null_def)
  qed
qed

lemma required_columns_station:
  "set required_columns \<subseteq> set (columns data) \<Longrightarrow>
   set [''Station name'', ''Station address'', ''Latitude'', ''Longitude'',
        ''Number of station''] \<subseteq> set (columns data)"
  by (auto simp: required_columns_def)

lemma required_columns_operator:
  "set required_columns \<subseteq> set (columns data) \<Longrightarrow> ''Operator'' \<in> set (columns data)"
  by (auto simp: required_columns_def)

lemma build_all_tables:
  assumes "set required_columns \<subseteq> set (columns data)"
  shows "\<exists>st unknown facts.
           dim_station data = Inr st \<and>
           dim_operator unique_operator data =
             Inr (operator_rows (unique_operator (map Operator (rows data)))) \<and>
           unknown_operator_id (operator_rows (unique_operator (map Operator (rows data)))) =
             Inr unknown \<and>
           fact_ev_charger unique_charger data
             (operator_rows (unique_operator (map Operator (rows data)))) st = Inr facts"
proof -
  obtain st where "dim_station data = Inr st"
    using dim_station_rows [OF required_columns_station [OF assms]] by blast
  moreover obtain unknown where
    "unknown_operator_id (operator_rows (unique_operator (map Operator (rows data)))) =
       Inr unknown"
    using unknown_operator_id_found by blast
  ultimately show ?thesis
    using dim_operator_Inr [OF required_columns_operator [OF assms]]
      fact_ev_charger_Inr [OF assms]
    by blast
qed

lemma no_Unknown_transfer:
  assumes "unique_spec id unique_operator"
    and "\<forall>v \<in> set (map Operator (rows data)). map_option strip_chars v \<noteq> Some ''Unknown''"
  shows "\<forall>v \<in> set (unique_operator (map Operator (rows data))).
           map_option strip_chars v \<noteq> Some ''Unknown''"
  using assms(2) unique_spec_idD [OF assms(1), of "map Operator (rows data)"] by simp

lemma padded_matches_no_stripped:
  assumes "leading_whitespace s \<or> trailing_whitespace s"
  shows "s \<noteq> strip_chars t"
  using assms strip_chars_no_leading [of t] strip_chars_no_trailing [of t] by auto

lemma padded_matches_no_row:
  assumes "leading_whitespace s \<or> trailing_whitespace s"
    and "d \<in> set (operator_rows u)"
  shows "operator_name d \<noteq> Some s"
proof
  assume n: "operator_name d = Some s"
  from assms(2) obtain k where "k \<le> length u" "d = operator_rows u ! k"
    by (metis in_set_conv_nth length_operator_rows less_Suc_eq_le)
  then have "operator_name d =
      map_option strip_chars (fill_null ''None'' ((u @ [Some ''Unknown'']) ! k))"
    by (simp add: nth_operator_rows)
  with n obtain t where "s = strip_chars t"
    by (cases "fill_null ''None'' ((u @ [Some ''Unknown'']) ! k)") auto
  with padded_matches_no_stripped [OF assms(1)] show False by blast
qed

subsection \<open>Running the builders on the example frames\<close>

lemmas example_defs =
  two_chargers_def acme_twice_def unknown_and_null_def padded_unknown_def no_ObjId_def
  no_Station_name_def frame_def charger_def required_columns_def

lemma strip_chars_examples:
  "strip_chars ''Acme'' = ''Acme''" "strip_chars ''Acme '' = ''Acme''"
  "strip_chars '' Unknown'' = ''Unknown''"
  by code_simp+

lemmas run_defs =
  dim_operator_def dim_station_def require_columns_def unique_first_def unique_last_def
  operator_rows_def arange_def fill_null_def strip_chars_examples strip_chars_Unknown
  strip_chars_None

lemmas fact_defs =
  fact_ev_charger_def selected_fact_rows_def left_join_def unknown_operator_id_def

lemmas build_defs =
  build_tables_def build_fact_ev_charger_def build_dim_station_def build_dim_operator_def
  write_csv_def main_def handle_exn_def

section \<open>The claims\<close>

subsection \<open>C1: the operator id of a fact row\<close>

text \<open>
  C1, as stated: every fact row has a non-null operator id, the id of the dimension row
  whose name equals the raw operator name when there is one, and otherwise the id of the
  sentinel row \<^verbatim>\<open>"Unknown"\<close>, the row that \<^verbatim>\<open>dim_operator\<close> appends. The fill value is the
  id of the first row named \<^verbatim>\<open>"Unknown"\<close>, which need not be the appended one: with an
  operator \<^verbatim>\<open>"Unknown"\<close> in the raw data, the charger without an operator (charger 2 below)
  gets that operator's id 1, and the appended row has the id 3.
\<close>

theorem fact_operator_id_first_Unknown_counterexample:
  "dim_operator (unique_first id) unknown_and_null =
     Inr [\<lparr>operator_name = Some ''Unknown'', operator_id = 1\<rparr>,
          \<lparr>operator_name = Some ''None'', operator_id = 2\<rparr>,
          \<lparr>operator_name = Some ''Unknown'', operator_id = 3\<rparr>] \<and>
   dim_station unknown_and_null =
     Inr [\<lparr>station_id = 1, station_name = Some ''Station A'',
           num_of_charging_stations = Some 2, lat = 59.9, long = 10.7\<rparr>,
          \<lparr>station_id = 2, station_name = Some ''Station B'',
           num_of_charging_stations = Some 2, lat = 59.9, long = 10.7\<rparr>] \<and>
   fact_ev_charger (unique_first charger_id) unknown_and_null
     [\<lparr>operator_name = Some ''Unknown'', operator_id = 1\<rparr>,
      \<lparr>operator_name = Some ''None'', operator_id = 2\<rparr>,
      \<lparr>operator_name = Some ''Unknown'', operator_id = 3\<rparr>]
     [\<lparr>station_id = 1, station_name = Some ''Station A'',
       num_of_charging_stations = Some 2, lat = 59.9, long = 10.7\<rparr>,
      \<lparr>station_id = 2, station_name = Some ''Station B'',
       num_of_charging_stations = Some 2, lat = 59.9, long = 10.7\<rparr>] =
     Inr [\<lparr>charger_id = 1, fact_station_id = Some 1, fact_operator_id = Some 1,
           chademo_plug_count = Some 1, ccs_sae_plug_count = Some 2,
           tesla_plug_count = Some 1, total_plug_count = Some 4\<rparr>,
          \<lparr>charger_id = 2, fact_station_id = Some 2, fact_operator_id = Some 1,
           chademo_plug_count = Some 1, ccs_sae_plug_count = Some 2,
           tesla_plug_count = Some 1, total_plug_count = Some 4\<rparr>]"
  by (simp add: example_defs run_defs fact_defs upt_rec)

text \<open>
  C1, amended: for a raw frame with the required columns and the dimensions built from it,
  the fact builder returns, and every fact row has a non-null operator id and comes from a
  raw row with its \<^verbatim>\<open>charger_id\<close>: when a dimension row has that raw row's operator name,
  the id is the id of such a row (several rows can share a name once stripped); otherwise
  it is \<open>unknown\<close>, the id of the first dimension row named \<^verbatim>\<open>"Unknown"\<close>. That row is the
  appended sentinel row whenever no raw operator value is \<^verbatim>\<open>"Unknown"\<close> once stripped.
\<close>

theorem fact_operator_id_resolved:
  assumes "unique_spec id unique_operator" and "unique_spec charger_id unique_charger"
    and "set required_columns \<subseteq> set (columns data)"
  shows "\<exists>st op unknown facts.
           dim_station data = Inr st \<and> dim_operator unique_operator data = Inr op \<and>
           unknown_operator_id op = Inr unknown \<and>
           fact_ev_charger unique_charger data op st = Inr facts \<and>
           (\<forall>f \<in> set facts. \<exists>r \<in> set (rows data). ObjId r = charger_id f \<and>
              (if \<exists>d \<in> set op. operator_name d = Operator r
               then \<exists>d \<in> set op. operator_name d = Operator r \<and>
                      fact_operator_id f = Some (operator_id d)
               else fact_operator_id f = Some unknown)) \<and>
           ((\<forall>v \<in> set (map Operator (rows data)).
               map_option strip_chars v \<noteq> Some ''Unknown'') \<longrightarrow>
            unknown = operator_id (last op))"
proof -
  let ?op = "operator_rows (unique_operator (map Operator (rows data)))"
  obtain st unknown facts where t: "dim_station data = Inr st"
    "dim_operator unique_operator data = Inr ?op"
    "unknown_operator_id ?op = Inr unknown"
    "fact_ev_charger unique_charger data ?op st = Inr facts"
    using build_all_tables [OF assms(3)] by blast
  have names: "(\<exists>d \<in> set ?op. Operator r \<noteq> None \<and> operator_name d = Operator r) \<longleftrightarrow>
               (\<exists>d \<in> set ?op. operator_name d = Operator r)" for r :: "('a, 'b) raw_row"
    using operator_rows_name_not_None by metis
  have "\<forall>f \<in> set facts. \<exists>r \<in> set (rows data). ObjId r = charger_id f \<and>
              (if \<exists>d \<in> set ?op. operator_name d = Operator r
               then \<exists>d \<in> set ?op. operator_name d = Operator r \<and>
                      fact_operator_id f = Some (operator_id d)
               else fact_operator_id f = Some unknown)"
    using fact_ev_charger_origin [OF assms(2) t(3) t(4)] unfolding names by blast
  moreover have "(\<forall>v \<in> set (map Operator (rows data)).
               map_option strip_chars v \<noteq> Some ''Unknown'') \<longrightarrow>
            unknown = operator_id (last ?op)"
  proof
    assume "\<forall>v \<in> set (map Operator (rows data)).
               map_option strip_chars v \<noteq> Some ''Unknown''"
    from unknown_operator_id_sentinel [OF no_Unknown_transfer [OF assms(1) this]] t(3)
    show "unknown = operator_id (last ?op)"
      by (simp add: last_operator_rows)
  qed
  ultimately show ?thesis
    using t by blast
qed

theorem fact_operator_id_resolved_witness:
  "set required_columns \<subseteq> set (columns two_chargers) \<and>
   (\<exists>st op unknown facts.
           dim_station two_chargers = Inr st \<and>
           dim_operator (unique_first id) two_chargers = Inr op \<and>
           unknown_operator_id op = Inr unknown \<and>
           fact_ev_charger (unique_first charger_id) two_chargers op st = Inr facts \<and>
           (\<forall>f \<in> set facts. \<exists>r \<in> set (rows two_chargers). ObjId r = charger_id f \<and>
              (if \<exists>d \<in> set op. operator_name d = Operator r
               then \<exists>d \<in> set op. operator_name d = Operator r \<and>
                      fact_operator_id f = Some (operator_id d)
               else fact_operator_id f = Some unknown)) \<and>
           unknown = operator_id (last op))"
proof -
  have c: "set required_columns \<subseteq> set (columns two_chargers)"
    by (simp add: example_defs)
  have n: "\<forall>v \<in> set (map Operator (rows two_chargers)).
             map_option strip_chars v \<noteq> Some ''Unknown''"
    by (simp add: example_defs strip_chars_examples)
  show ?thesis
    using c n fact_operator_id_resolved [OF unique_first_spec unique_first_spec c]
    by blast
qed

subsection \<open>C2: the fact table has one row for each charger, in ascending order\<close>

text \<open>
  C2: for a raw frame with the required columns, the three builders return, and the fact
  table has no two rows with the same \<^verbatim>\<open>charger_id\<close> and is sorted in ascending order of
  \<^verbatim>\<open>charger_id\<close>. This holds for every implementation of \<^verbatim>\<open>unique\<close> that meets polars'
  contract.
\<close>

theorem fact_ev_charger_unique_sorted:
  assumes "unique_spec charger_id unique_charger"
    and "set required_columns \<subseteq> set (columns data)"
  shows "\<exists>st op facts.
           dim_station data = Inr st \<and> dim_operator unique_operator data = Inr op \<and>
           fact_ev_charger unique_charger data op st = Inr facts \<and>
           distinct (map charger_id facts) \<and> sorted (map charger_id facts)"
proof -
  obtain st unknown facts where t: "dim_station data = Inr st"
    "dim_operator unique_operator data =
       Inr (operator_rows (unique_operator (map Operator (rows data))))"
    "fact_ev_charger unique_charger data
       (operator_rows (unique_operator (map Operator (rows data)))) st = Inr facts"
    using build_all_tables [OF assms(2)] by blast
  from fact_ev_charger_sorted_distinct [OF assms(1) t(3)]
  have "distinct (map charger_id facts) \<and> sorted (map charger_id facts)"
    by blast
  with t show ?thesis by blast
qed

theorem fact_ev_charger_unique_sorted_witness:
  "set required_columns \<subseteq> set (columns two_chargers) \<and>
   (\<exists>st op facts.
      dim_station two_chargers = Inr st \<and> dim_operator (unique_last id) two_chargers = Inr op \<and>
      fact_ev_charger (unique_last charger_id) two_chargers op st = Inr facts \<and>
      distinct (map charger_id facts) \<and> sorted (map charger_id facts))"
proof -
  have c: "set required_columns \<subseteq> set (columns two_chargers)"
    by (simp add: example_defs)
  show ?thesis
    using c fact_ev_charger_unique_sorted [OF unique_last_spec c] by simp
qed

subsection \<open>C3: the sentinel row of the operator dimension\<close>

text \<open>
  C3, as stated: the operator dimension has exactly one row named \<^verbatim>\<open>"Unknown"\<close> unless a
  raw operator value equals \<^verbatim>\<open>"Unknown"\<close>, and the appended row has the largest id, the
  number of distinct raw values plus 1. The first half fails: the names are stripped after
  \<^verbatim>\<open>unique\<close>, so the raw value \<^verbatim>\<open>" Unknown"\<close>, which is not \<^verbatim>\<open>"Unknown"\<close>, gives a second
  row of that name.
\<close>

theorem dim_operator_two_Unknown_counterexample:
  "Some ''Unknown'' \<notin> set (map Operator (rows padded_unknown)) \<and>
   dim_operator (unique_first id) padded_unknown =
     Inr [\<lparr>operator_name = Some ''Unknown'', operator_id = 1\<rparr>,
          \<lparr>operator_name = Some ''Unknown'', operator_id = 2\<rparr>]"
  by (simp add: example_defs run_defs)

text \<open>
  C3, amended: for a raw frame with the operator column, the number of rows of the operator
  dimension named \<^verbatim>\<open>"Unknown"\<close> is 1 plus the number of distinct raw operator values that
  are \<^verbatim>\<open>"Unknown"\<close> once stripped of leading and trailing whitespace (so there is exactly
  one such row unless a raw value strips to \<^verbatim>\<open>"Unknown"\<close>); the appended row is the last
  one, its id is the number of distinct raw operator values (null counted as one value)
  plus 1, and no id is larger.
\<close>

theorem dim_operator_sentinel:
  assumes "unique_spec id unique_impl" and "''Operator'' \<in> set (columns data)"
  shows "\<exists>dim. dim_operator unique_impl data = Inr dim \<and>
           length (filter (\<lambda>d. operator_name d = Some ''Unknown'') dim) =
             Suc (card {v \<in> set (map Operator (rows data)).
                         map_option strip_chars v = Some ''Unknown''}) \<and>
           last dim = \<lparr>operator_name = Some ''Unknown'',
                       operator_id = int (card (set (map Operator (rows data)))) + 1\<rparr> \<and>
           (\<forall>d \<in> set dim. operator_id d \<le> operator_id (last dim))"
proof -
  let ?u = "unique_impl (map Operator (rows data))"
  have u: "distinct ?u" "set ?u = set (map Operator (rows data))"
    using unique_spec_idD [OF assms(1)] by blast+
  then have len: "length ?u = card (set (map Operator (rows data)))"
    using distinct_card by fastforce
  have "last (operator_rows ?u) =
          \<lparr>operator_name = Some ''Unknown'',
           operator_id = int (card (set (map Operator (rows data)))) + 1\<rparr>"
    by (simp add: last_operator_rows len)
  moreover have "\<forall>d \<in> set (operator_rows ?u). operator_id d \<le> operator_id (last (operator_rows ?u))"
    using operator_rows_id_le [of _ ?u] by (simp add: last_operator_rows)
  moreover have "length (filter (\<lambda>d. operator_name d = Some ''Unknown'') (operator_rows ?u)) =
             Suc (card {v \<in> set (map Operator (rows data)).
                         map_option strip_chars v = Some ''Unknown''})"
    using operator_rows_count_Unknown [OF u(1)] by (simp only: u(2))
  ultimately show ?thesis
    using dim_operator_Inr [OF assms(2), of unique_impl] by simp
qed

theorem dim_operator_sentinel_witness:
  "''Operator'' \<in> set (columns two_chargers) \<and>
   (\<exists>dim. dim_operator (unique_first id) two_chargers = Inr dim \<and>
      length (filter (\<lambda>d. operator_name d = Some ''Unknown'') dim) = 1 \<and>
      last dim = \<lparr>operator_name = Some ''Unknown'', operator_id = 3\<rparr> \<and>
      (\<forall>d \<in> set dim. operator_id d \<le> operator_id (last dim)))"
proof -
  have c: "''Operator'' \<in> set (columns two_chargers)"
    by (simp add: example_defs)
  have e: "{v \<in> set (map Operator (rows two_chargers)).
             map_option strip_chars v = Some ''Unknown''} = {}"
    by (auto simp: example_defs strip_chars_examples)
  have k: "card (set (map Operator (rows two_chargers))) = 2"
    by (simp add: example_defs)
  show ?thesis
    using c dim_operator_sentinel [OF unique_first_spec c] unfolding e k by simp
qed

subsection \<open>C4: two runs on the same input\<close>

text \<open>
  C4, as stated: two runs of the three builders on the same raw input give the same three
  tables, row for row. The code does not fix what \<^verbatim>\<open>unique\<close> returns: with two
  implementations that meet polars' contract, the operator dimensions of the same frame
  differ in the order of their rows and so in the ids, and the fact tables differ in the
  operator id and in the station id of charger 1 (two station rows share its station name,
  and \<^verbatim>\<open>unique\<close> keeps either joined row).
\<close>

theorem pipeline_order_counterexample:
  "unique_any id (map Operator (rows two_chargers))
     (unique_first id (map Operator (rows two_chargers))) \<and>
   unique_any id (map Operator (rows two_chargers))
     (unique_last id (map Operator (rows two_chargers))) \<and>
   dim_operator (unique_first id) two_chargers =
     Inr [\<lparr>operator_name = Some ''Acme'', operator_id = 1\<rparr>,
          \<lparr>operator_name = Some ''None'', operator_id = 2\<rparr>,
          \<lparr>operator_name = Some ''Unknown'', operator_id = 3\<rparr>] \<and>
   dim_operator (unique_last id) two_chargers =
     Inr [\<lparr>operator_name = Some ''None'', operator_id = 1\<rparr>,
          \<lparr>operator_name = Some ''Acme'', operator_id = 2\<rparr>,
          \<lparr>operator_name = Some ''Unknown'', operator_id = 3\<rparr>] \<and>
   dim_station two_chargers =
     Inr [\<lparr>station_id = 1, station_name = Some ''Station A'',
           num_of_charging_stations = Some 2, lat = 59.9, long = 10.7\<rparr>,
          \<lparr>station_id = 2, station_name = Some ''Station A'',
           num_of_charging_stations = Some 2, lat = 59.9, long = 10.7\<rparr>] \<and>
   fact_ev_charger (unique_first charger_id) two_chargers
     [\<lparr>operator_name = Some ''Acme'', operator_id = 1\<rparr>,
      \<lparr>operator_name = Some ''None'', operator_id = 2\<rparr>,
      \<lparr>operator_name = Some ''Unknown'', operator_id = 3\<rparr>]
     [\<lparr>station_id = 1, station_name = Some ''Station A'',
       num_of_charging_stations = Some 2, lat = 59.9, long = 10.7\<rparr>,
      \<lparr>station_id = 2, station_name = Some ''Station A'',
       num_of_charging_stations = Some 2, lat = 59.9, long = 10.7\<rparr>] =
     Inr [\<lparr>charger_id = 1, fact_station_id = Some 1, fact_operator_id = Some 1,
           chademo_plug_count = Some 1, ccs_sae_plug_count = Some 2,
           tesla_plug_count = Some 1, total_plug_count = Some 4\<rparr>,
          \<lparr>charger_id = 2, fact_station_id = Some 1, fact_operator_id = Some 3,
           chademo_plug_count = Some 1, ccs_sae_plug_count = Some 2,
           tesla_plug_count = Some 1, total_plug_count = Some 4\<rparr>] \<and>
   fact_ev_charger (unique_last charger_id) two_chargers
     [\<lparr>operator_name = Some ''None'', operator_id = 1\<rparr>,
      \<lparr>operator_name = Some ''Acme'', operator_id = 2\<rparr>,
      \<lparr>operator_name = Some ''Unknown'', operator_id = 3\<rparr>]
     [\<lparr>station_id = 1, station_name = Some ''Station A'',
       num_of_charging_stations = Some 2, lat = 59.9, long = 10.7\<rparr>,
      \<lparr>station_id = 2, station_name = Some ''Station A'',
       num_of_charging_stations = Some 2, lat = 59.9, long = 10.7\<rparr>] =
     Inr [\<lparr>charger_id = 1, fact_station_id = Some 2, fact_operator_id = Some 2,
           chademo_plug_count = Some 1, ccs_sae_plug_count = Some 2,
           tesla_plug_count = Some 1, total_plug_count = Some 4\<rparr>,
          \<lparr>charger_id = 2, fact_station_id = Some 2, fact_operator_id = Some 3,
           chademo_plug_count = Some 1, ccs_sae_plug_count = Some 2,
           tesla_plug_count = Some 1, total_plug_count = Some 4\<rparr>]"
proof -
  have "unique_any id (map Operator (rows two_chargers))
     (unique_first id (map Operator (rows two_chargers)))"
    by (auto simp: example_defs unique_first_def unique_any_def)
  moreover have "unique_any id (map Operator (rows two_chargers))
     (unique_last id (map Operator (rows two_chargers)))"
    by (auto simp: example_defs unique_last_def unique_any_def)
  ultimately show ?thesis
    by (simp add: example_defs run_defs fact_defs upt_rec)
qed


text \<open>
  C4, amended: \<^verbatim>\<open>dim_station\<close> is a function of the raw frame alone. For two runs on the
  same raw frame with the required columns, whatever the two runs' \<^verbatim>\<open>unique\<close> calls return
  within polars' contract: the station dimensions are equal; the operator dimensions have
  the same id column, the same names up to the order of the rows and the same last row; the
  fact tables have the same \<^verbatim>\<open>charger_id\<close> column. When the \<^verbatim>\<open>unique\<close> calls of the two runs
  return the same rows in the same order, the operator dimensions and the fact tables are
  equal.
\<close>

theorem pipeline_determined_up_to_unique:
  assumes "unique_spec id unique_operator1" and "unique_spec id unique_operator2"
    and "unique_spec charger_id unique_charger1" and "unique_spec charger_id unique_charger2"
    and "set required_columns \<subseteq> set (columns data)"
  shows "\<exists>st op1 op2 facts1 facts2.
           dim_station data = Inr st \<and>
           dim_operator unique_operator1 data = Inr op1 \<and>
           dim_operator unique_operator2 data = Inr op2 \<and>
           fact_ev_charger unique_charger1 data op1 st = Inr facts1 \<and>
           fact_ev_charger unique_charger2 data op2 st = Inr facts2 \<and>
           map operator_id op1 = map operator_id op2 \<and>
           mset (map operator_name op1) = mset (map operator_name op2) \<and>
           last op1 = last op2 \<and>
           map charger_id facts1 = map charger_id facts2 \<and>
           (unique_operator1 (map Operator (rows data)) =
              unique_operator2 (map Operator (rows data)) \<longrightarrow> op1 = op2) \<and>
           (op1 = op2 \<and> unique_charger1 = unique_charger2 \<longrightarrow> facts1 = facts2)"
proof -
  let ?u1 = "unique_operator1 (map Operator (rows data))"
  let ?u2 = "unique_operator2 (map Operator (rows data))"
  obtain st unknown1 facts1 where t1: "dim_station data = Inr st"
    "dim_operator unique_operator1 data = Inr (operator_rows ?u1)"
    "fact_ev_charger unique_charger1 data (operator_rows ?u1) st = Inr facts1"
    using build_all_tables [OF assms(5)] by blast
  obtain st' unknown2 facts2 where t2: "dim_station data = Inr st'"
    "dim_operator unique_operator2 data = Inr (operator_rows ?u2)"
    "fact_ev_charger unique_charger2 data (operator_rows ?u2) st' = Inr facts2"
    using build_all_tables [OF assms(5)] by blast
  from t1(1) t2(1) have st: "st' = st" by simp
  have u1: "distinct ?u1" "set ?u1 = set (map Operator (rows data))"
    using unique_spec_idD [OF assms(1)] by blast+
  have u2: "distinct ?u2" "set ?u2 = set (map Operator (rows data))"
    using unique_spec_idD [OF assms(2)] by blast+
  from u1(2) u2(2) have "set ?u1 = set ?u2"
    by simp
  with u1(1) u2(1) have m: "mset ?u1 = mset ?u2"
    using set_eq_iff_mset_eq_distinct by blast
  then have len: "length ?u1 = length ?u2"
    by (rule mset_eq_length)
  have ids: "map operator_id (operator_rows ?u1) = map operator_id (operator_rows ?u2)"
    unfolding operator_rows_ids len ..
  have "mset (map (\<lambda>n. map_option strip_chars (fill_null ''None'' n)) ?u1) =
        mset (map (\<lambda>n. map_option strip_chars (fill_null ''None'' n)) ?u2)"
    by (simp add: m)
  then have names: "mset (map operator_name (operator_rows ?u1)) =
                    mset (map operator_name (operator_rows ?u2))"
    by (simp add: operator_rows_names)
  have lasts: "last (operator_rows ?u1) = last (operator_rows ?u2)"
    by (simp add: last_operator_rows len)
  have f1: "distinct (map charger_id facts1)" "sorted (map charger_id facts1)"
    "charger_id ` set facts1 = ObjId ` set (rows data)"
    using fact_ev_charger_sorted_distinct [OF assms(3) t1(3)] by blast+
  have f2: "distinct (map charger_id facts2)" "sorted (map charger_id facts2)"
    "charger_id ` set facts2 = ObjId ` set (rows data)"
    using fact_ev_charger_sorted_distinct [OF assms(4) t2(3)] by blast+
  have chargers: "map charger_id facts1 = map charger_id facts2"
  proof (rule sorted_distinct_set_unique)
    show "set (map charger_id facts1) = set (map charger_id facts2)"
      using f1(3) f2(3) by simp
  qed (fact f1 f2)+
  have same: "operator_rows ?u1 = operator_rows ?u2 \<and> unique_charger1 = unique_charger2 \<longrightarrow>
              facts1 = facts2"
  proof (intro impI, elim conjE)
    assume "operator_rows ?u1 = operator_rows ?u2" "unique_charger1 = unique_charger2"
    with t1(3) t2(3) st show "facts1 = facts2" by simp
  qed
  have ops: "?u1 = ?u2 \<longrightarrow> operator_rows ?u1 = operator_rows ?u2"
    by simp
  from t1 t2 [unfolded st] ids names lasts chargers ops same show ?thesis
    by blast
qed

theorem pipeline_determined_up_to_unique_witness:
  "set required_columns \<subseteq> set (columns two_chargers) \<and>
   (\<exists>st op1 op2 facts1 facts2.
           dim_station two_chargers = Inr st \<and>
           dim_operator (unique_first id) two_chargers = Inr op1 \<and>
           dim_operator (unique_last id) two_chargers = Inr op2 \<and>
           fact_ev_charger (unique_first charger_id) two_chargers op1 st = Inr facts1 \<and>
           fact_ev_charger (unique_last charger_id) two_chargers op2 st = Inr facts2 \<and>
           map operator_id op1 = map operator_id op2 \<and>
           mset (map operator_name op1) = mset (map operator_name op2) \<and>
           last op1 = last op2 \<and>
           map charger_id facts1 = map charger_id facts2)"
proof -
  have c: "set required_columns \<subseteq> set (columns two_chargers)"
    by (simp add: example_defs)
  show ?thesis
    using c pipeline_determined_up_to_unique
      [OF unique_first_spec unique_last_spec unique_first_spec unique_last_spec c]
    by (elim exE conjE, intro conjI exI) assumption+
qed

subsection \<open>C5: the order of the operator dimension\<close>

text \<open>
  C5, as stated: \<^verbatim>\<open>dim_operator\<close> keeps the distinct operator values in first-occurrence
  order, then the row \<^verbatim>\<open>"Unknown"\<close>, and numbers the rows from 1. The order is not the
  code's: \<^verbatim>\<open>unique\<close> is called without \<^verbatim>\<open>maintain_order=True\<close>. On the operator column
  \<^verbatim>\<open>"Acme"\<close>, null an implementation that polars' contract admits returns null first, and
  the dimension then starts with \<^verbatim>\<open>"None"\<close>.
\<close>

theorem dim_operator_order_counterexample:
  "map Operator (rows two_chargers) = [Some ''Acme'', None] \<and>
   unique_any id (map Operator (rows two_chargers))
     (unique_last id (map Operator (rows two_chargers))) \<and>
   dim_operator (unique_last id) two_chargers =
     Inr [\<lparr>operator_name = Some ''None'', operator_id = 1\<rparr>,
          \<lparr>operator_name = Some ''Acme'', operator_id = 2\<rparr>,
          \<lparr>operator_name = Some ''Unknown'', operator_id = 3\<rparr>]"
  by (auto simp: example_defs run_defs unique_any_def)

text \<open>
  C5, amended: for a raw frame with the operator column, \<^verbatim>\<open>dim_operator\<close> reduces the
  column to its distinct values, each once, in the order \<^verbatim>\<open>unique\<close> returns them (\<open>u\<close>
  below), and the operator id is the 1-based row position in the final order: the values
  of \<open>u\<close> in that order, null as \<^verbatim>\<open>"None"\<close> and every name stripped, then the row
  \<^verbatim>\<open>"Unknown"\<close> last.
\<close>

theorem dim_operator_positions:
  assumes "unique_spec id unique_impl" and "''Operator'' \<in> set (columns data)"
  shows "let u = unique_impl (map Operator (rows data)) in
           distinct u \<and> set u = set (map Operator (rows data)) \<and>
           dim_operator unique_impl data =
             Inr (map (\<lambda>k. \<lparr>operator_name =
                              map_option strip_chars
                                (fill_null ''None'' ((u @ [Some ''Unknown'']) ! k)),
                            operator_id = int k + 1\<rparr>) [0..<Suc (length u)])"
  using assms unique_spec_idD [OF assms(1), of "map Operator (rows data)"]
  by (simp add: Let_def dim_operator_Inr operator_rows_eq del: upt_Suc)

theorem dim_operator_positions_witness:
  "''Operator'' \<in> set (columns two_chargers) \<and>
   dim_operator (unique_first id) two_chargers =
     Inr [\<lparr>operator_name = Some ''Acme'', operator_id = 1\<rparr>,
          \<lparr>operator_name = Some ''None'', operator_id = 2\<rparr>,
          \<lparr>operator_name = Some ''Unknown'', operator_id = 3\<rparr>]"
proof -
  have c: "''Operator'' \<in> set (columns two_chargers)"
    by (simp add: example_defs)
  have u: "unique_first id (map Operator (rows two_chargers)) = [Some ''Acme'', None]"
    by (simp add: example_defs unique_first_def)
  show ?thesis
    using c dim_operator_positions [OF unique_first_spec c]
    by (simp add: Let_def u fill_null_def strip_chars_examples strip_chars_None
        strip_chars_Unknown upt_rec)
qed

subsection \<open>C6: the rows of the station dimension\<close>


subsection \<open>C7: names that differ only in outer whitespace\<close>

text \<open>
  C7: when the operator column of the raw frame holds two different values with the same
  stripped form (such as \<^verbatim>\<open>"Acme"\<close> and \<^verbatim>\<open>"Acme "\<close>), the operator dimension has two rows
  with different operator ids whose names are both that stripped string: \<^verbatim>\<open>unique\<close> runs
  before \<^verbatim>\<open>strip_chars\<close>.
\<close>

theorem dim_operator_trim_after_unique:
  assumes "unique_spec id unique_impl" and "''Operator'' \<in> set (columns data)"
    and "Some a \<in> set (map Operator (rows data))"
    and "Some b \<in> set (map Operator (rows data))"
    and "a \<noteq> b" and "strip_chars a = strip_chars b"
  shows "\<exists>dim i j. dim_operator unique_impl data = Inr dim \<and>
           i < length dim \<and> j < length dim \<and> i \<noteq> j \<and>
           operator_id (dim ! i) \<noteq> operator_id (dim ! j) \<and>
           operator_name (dim ! i) = Some (strip_chars a) \<and>
           operator_name (dim ! j) = Some (strip_chars a)"
proof -
  let ?u = "unique_impl (map Operator (rows data))"
  have u: "set ?u = set (map Operator (rows data))"
    using unique_spec_idD [OF assms(1)] by blast
  with assms(3,4) obtain i j where i: "i < length ?u" "?u ! i = Some a"
    and j: "j < length ?u" "?u ! j = Some b"
    by (metis in_set_conv_nth)
  with assms(5) have "i \<noteq> j" by auto
  moreover have "operator_rows ?u ! i =
      \<lparr>operator_name = Some (strip_chars a), operator_id = int i + 1\<rparr>"
    using i by (simp add: nth_operator_rows nth_append fill_null_def)
  moreover have "operator_rows ?u ! j =
      \<lparr>operator_name = Some (strip_chars a), operator_id = int j + 1\<rparr>"
    using j assms(6) by (simp add: nth_operator_rows nth_append fill_null_def)
  ultimately show ?thesis
    using dim_operator_Inr [OF assms(2), of unique_impl] i(1) j(1)
    by (intro exI [of _ "operator_rows ?u"] exI [of _ i] exI [of _ j])
      (simp add: length_operator_rows)
qed

theorem dim_operator_trim_after_unique_witness:
  "Some ''Acme'' \<in> set (map Operator (rows acme_twice)) \<and>
   Some ''Acme '' \<in> set (map Operator (rows acme_twice)) \<and>
   ''Acme'' \<noteq> ''Acme '' \<and> strip_chars ''Acme'' = strip_chars ''Acme '' \<and>
   (\<exists>dim i j. dim_operator (unique_first id) acme_twice = Inr dim \<and>
           i < length dim \<and> j < length dim \<and> i \<noteq> j \<and>
           operator_id (dim ! i) \<noteq> operator_id (dim ! j) \<and>
           operator_name (dim ! i) = Some ''Acme'' \<and>
           operator_name (dim ! j) = Some ''Acme'')"
proof -
  have c: "''Operator'' \<in> set (columns acme_twice)"
    and a: "Some ''Acme'' \<in> set (map Operator (rows acme_twice))"
    and b: "Some ''Acme '' \<in> set (map Operator (rows acme_twice))"
    by (simp_all add: example_defs)
  have n: "''Acme'' \<noteq> ''Acme ''" by simp
  have s: "strip_chars ''Acme'' = strip_chars ''Acme ''"
    by (simp add: strip_chars_examples)
  show ?thesis
    using a b n s dim_operator_trim_after_unique [OF unique_first_spec c a b n s]
    by (simp add: strip_chars_examples)
qed

subsection \<open>C8: the files a failed run leaves\<close>




subsection \<open>C9: a file with a required column missing\<close>

text \<open>
  C9 asks that \<^verbatim>\<open>main\<close> catches the error of an invalid schema and prints it. \<^verbatim>\<open>main\<close>
  catches \<^verbatim>\<open>FileNotFoundError\<close> and \<^verbatim>\<open>SchemaError\<close>; an absent column makes polars raise
  \<^verbatim>\<open>ColumnNotFoundError\<close>, which is neither. On a file with no \<^verbatim>\<open>Station name\<close> column
  the exception leaves \<^verbatim>\<open>main\<close> unhandled.
\<close>

theorem main_missing_column_unhandled_example:
  "columns no_Station_name =
     [''ObjId'', ''Operator'', ''Station address'', ''Latitude'', ''Longitude'',
      ''Number of station'', ''Number of plugs'', ''CHAdeMO'', ''CCS/SAE'', ''Tesla(Fast)''] \<and>
   main (unique_first id) (unique_first charger_id) (Inr no_Station_name) Map.empty =
     (Unhandled ColumnNotFoundError, Map.empty)"
  by (simp add: example_defs run_defs build_defs)

text \<open>
  The same holds for every frame that lacks one of the required columns; a missing file is
  printed.
\<close>

lemma main_missing_column_unhandled:
  assumes "\<not> set required_columns \<subseteq> set (columns data)"
  shows "fst (main unique_operator unique_charger (Inr data) fs) = Unhandled ColumnNotFoundError"
proof -
  have "fst (build_tables unique_operator unique_charger data fs) = Inl ColumnNotFoundError"
    using assms
    by (auto simp: build_tables_def build_fact_ev_charger_def dim_station_def dim_operator_def
        fact_ev_charger_def require_columns_def required_columns_def split: sum.splits)
  then show ?thesis
    by (auto simp: main_def handle_exn_def split: prod.splits sum.splits)
qed

lemma main_missing_file_printed:
  "main unique_operator unique_charger (Inl FileNotFoundError) fs =
     (Printed FileNotFoundError, fs)"
  by (simp add: main_def handle_exn_def)

subsection \<open>C10: operator names with leading or trailing whitespace\<close>

text \<open>
  C10, as stated: a raw row whose operator name has leading or trailing whitespace gets the
  operator id of the sentinel row \<^verbatim>\<open>"Unknown"\<close> in the fact table, never the id of its own
  dimension row. For the raw name \<^verbatim>\<open>" Unknown"\<close> the own dimension row is named
  \<^verbatim>\<open>"Unknown"\<close> once stripped and is the first row of that name: the fact row gets its
  id 1, not the id 2 of the appended row.
\<close>

theorem padded_unknown_own_id_counterexample:
  "leading_whitespace '' Unknown'' \<and>
   dim_operator (unique_first id) padded_unknown =
     Inr [\<lparr>operator_name = Some ''Unknown'', operator_id = 1\<rparr>,
          \<lparr>operator_name = Some ''Unknown'', operator_id = 2\<rparr>] \<and>
   dim_station padded_unknown =
     Inr [\<lparr>station_id = 1, station_name = Some ''Station A'',
           num_of_charging_stations = Some 2, lat = 59.9, long = 10.7\<rparr>] \<and>
   fact_ev_charger (unique_first charger_id) padded_unknown
     [\<lparr>operator_name = Some ''Unknown'', operator_id = 1\<rparr>,
      \<lparr>operator_name = Some ''Unknown'', operator_id = 2\<rparr>]
     [\<lparr>station_id = 1, station_name = Some ''Station A'',
       num_of_charging_stations = Some 2, lat = 59.9, long = 10.7\<rparr>] =
     Inr [\<lparr>charger_id = 1, fact_station_id = Some 1, fact_operator_id = Some 1,
           chademo_plug_count = Some 1, ccs_sae_plug_count = Some 2,
           tesla_plug_count = Some 1, total_plug_count = Some 4\<rparr>]"
  by (simp add: example_defs run_defs fact_defs upt_rec leading_whitespace_def whitespace_def)

text \<open>
  C10, amended: for a raw frame with the required columns, a raw operator name with leading
  or trailing whitespace equals the name of no dimension row; the raw row's charger has a
  fact row, and when all raw rows of that charger carry this operator name the fact row
  gets \<open>unknown\<close>, the id of the first dimension row named \<^verbatim>\<open>"Unknown"\<close>. Whenever no raw
  operator value is \<^verbatim>\<open>"Unknown"\<close> once stripped, that id is the id of the appended sentinel
  row and the id of no other dimension row, so not the id of the name's own row.
\<close>

theorem padded_operator_gets_unknown_id:
  assumes "unique_spec id unique_operator" and "unique_spec charger_id unique_charger"
    and "set required_columns \<subseteq> set (columns data)"
    and "r \<in> set (rows data)" and "Operator r = Some s"
    and "leading_whitespace s \<or> trailing_whitespace s"
  shows "\<exists>st op unknown facts.
           dim_station data = Inr st \<and> dim_operator unique_operator data = Inr op \<and>
           unknown_operator_id op = Inr unknown \<and>
           fact_ev_charger unique_charger data op st = Inr facts \<and>
           (\<forall>d \<in> set op. operator_name d \<noteq> Operator r) \<and>
           (\<exists>f \<in> set facts. charger_id f = ObjId r) \<and>
           (\<forall>f \<in> set facts. charger_id f = ObjId r \<longrightarrow>
              (\<forall>r' \<in> set (rows data). ObjId r' = ObjId r \<longrightarrow> Operator r' = Operator r) \<longrightarrow>
              fact_operator_id f = Some unknown) \<and>
           ((\<forall>v \<in> set (map Operator (rows data)).
               map_option strip_chars v \<noteq> Some ''Unknown'') \<longrightarrow>
            unknown = operator_id (last op) \<and>
            (\<forall>k < length op - 1. operator_id (op ! k) \<noteq> unknown))"
proof -
  let ?u = "unique_operator (map Operator (rows data))"
  let ?op = "operator_rows ?u"
  obtain st unknown facts where t: "dim_station data = Inr st"
    "dim_operator unique_operator data = Inr ?op"
    "unknown_operator_id ?op = Inr unknown"
    "fact_ev_charger unique_charger data ?op st = Inr facts"
    using build_all_tables [OF assms(3)] by blast
  have nomatch: "\<forall>d \<in> set ?op. operator_name d \<noteq> Operator r"
    using padded_matches_no_row [OF assms(6)] assms(5) by auto
  have "charger_id ` set facts = ObjId ` set (rows data)"
    using fact_ev_charger_sorted_distinct [OF assms(2) t(4)] by blast
  with assms(4) have ex: "\<exists>f \<in> set facts. charger_id f = ObjId r"
    by (metis (no_types, lifting) image_iff)
  have filled: "\<forall>f \<in> set facts. charger_id f = ObjId r \<longrightarrow>
              (\<forall>r' \<in> set (rows data). ObjId r' = ObjId r \<longrightarrow> Operator r' = Operator r) \<longrightarrow>
              fact_operator_id f = Some unknown"
  proof (intro ballI impI)
    fix f
    assume f: "f \<in> set facts" "charger_id f = ObjId r"
      and same: "\<forall>r' \<in> set (rows data). ObjId r' = ObjId r \<longrightarrow> Operator r' = Operator r"
    from fact_ev_charger_origin [OF assms(2) t(3) t(4) f(1)]
    obtain r' where r': "r' \<in> set (rows data)" "ObjId r' = charger_id f"
      and o: "if \<exists>d \<in> set ?op. Operator r' \<noteq> None \<and> operator_name d = Operator r'
              then \<exists>d \<in> set ?op. operator_name d = Operator r' \<and>
                     fact_operator_id f = Some (operator_id d)
              else fact_operator_id f = Some unknown"
      by blast
    from r' f(2) same have "Operator r' = Operator r" by simp
    with nomatch o show "fact_operator_id f = Some unknown"
      by (simp split: if_splits)
  qed
  have sentinel: "(\<forall>v \<in> set (map Operator (rows data)).
               map_option strip_chars v \<noteq> Some ''Unknown'') \<longrightarrow>
            unknown = operator_id (last ?op) \<and>
            (\<forall>k < length ?op - 1. operator_id (?op ! k) \<noteq> unknown)"
  proof
    assume "\<forall>v \<in> set (map Operator (rows data)).
               map_option strip_chars v \<noteq> Some ''Unknown''"
    from unknown_operator_id_sentinel [OF no_Unknown_transfer [OF assms(1) this]] t(3)
    have u: "unknown = int (length ?u) + 1" by simp
    then show "unknown = operator_id (last ?op) \<and>
            (\<forall>k < length ?op - 1. operator_id (?op ! k) \<noteq> unknown)"
      by (simp add: last_operator_rows length_operator_rows nth_operator_rows)
  qed
  from t nomatch ex filled sentinel show ?thesis by blast
qed

theorem padded_operator_gets_unknown_id_witness:
  "charger 2 (Some ''Acme '') (Some ''Station B'') \<in> set (rows acme_twice) \<and>
   trailing_whitespace ''Acme '' \<and>
   (\<exists>st op unknown facts.
      dim_station acme_twice = Inr st \<and> dim_operator (unique_first id) acme_twice = Inr op \<and>
      unknown_operator_id op = Inr unknown \<and>
      fact_ev_charger (unique_first charger_id) acme_twice op st = Inr facts \<and>
      (\<forall>d \<in> set op. operator_name d \<noteq> Some ''Acme '') \<and>
      (\<exists>f \<in> set facts. charger_id f = 2) \<and>
      (\<forall>f \<in> set facts. charger_id f = 2 \<longrightarrow> fact_operator_id f = Some unknown) \<and>
      unknown = operator_id (last op) \<and>
      (\<forall>k < length op - 1. operator_id (op ! k) \<noteq> unknown))"
proof -
  let ?r = "charger 2 (Some ''Acme '') (Some ''Station B'')"
  have c: "set required_columns \<subseteq> set (columns acme_twice)"
    and r: "?r \<in> set (rows acme_twice)"
    and o: "Operator ?r = Some ''Acme ''"
    and i: "ObjId ?r = 2"
    and same: "\<forall>r' \<in> set (rows acme_twice). ObjId r' = ObjId ?r \<longrightarrow> Operator r' = Operator ?r"
    by (simp_all add: example_defs)
  have w: "trailing_whitespace ''Acme ''"
    by code_simp
  then have w': "leading_whitespace ''Acme '' \<or> trailing_whitespace ''Acme ''" ..
  have n: "\<forall>v \<in> set (map Operator (rows acme_twice)).
             map_option strip_chars v \<noteq> Some ''Unknown''"
    by (simp add: example_defs strip_chars_examples)
  from padded_operator_gets_unknown_id [OF unique_first_spec unique_first_spec c r o w']
  obtain st op unknown facts where
    "dim_station acme_twice = Inr st" "dim_operator (unique_first id) acme_twice = Inr op"
    "unknown_operator_id op = Inr unknown"
    "fact_ev_charger (unique_first charger_id) acme_twice op st = Inr facts"
    "\<forall>d \<in> set op. operator_name d \<noteq> Operator ?r"
    "\<exists>f \<in> set facts. charger_id f = ObjId ?r"
    "\<forall>f \<in> set facts. charger_id f = ObjId ?r \<longrightarrow>
       (\<forall>r' \<in> set (rows acme_twice). ObjId r' = ObjId ?r \<longrightarrow> Operator r' = Operator ?r) \<longrightarrow>
       fact_operator_id f = Some unknown"
    "(\<forall>v \<in> set (map Operator (rows acme_twice)).
               map_option strip_chars v \<noteq> Some ''Unknown'') \<longrightarrow>
            unknown = operator_id (last op) \<and>
            (\<forall>k < length op - 1. operator_id (op ! k) \<noteq> unknown)"
    by blast
  with same n have "dim_station acme_twice = Inr st \<and>
      dim_operator (unique_first id) acme_twice = Inr op \<and>
      unknown_operator_id op = Inr unknown \<and>
      fact_ev_charger (unique_first charger_id) acme_twice op st = Inr facts \<and>
      (\<forall>d \<in> set op. operator_name d \<noteq> Some ''Acme '') \<and>
      (\<exists>f \<in> set facts. charger_id f = 2) \<and>
      (\<forall>f \<in> set facts. charger_id f = 2 \<longrightarrow> fact_operator_id f = Some unknown) \<and>
      unknown = operator_id (last op) \<and>
      (\<forall>k < length op - 1. operator_id (op ! k) \<noteq> unknown)"
    unfolding o i by blast
  with r w show ?thesis by blast
qed

end
